theory Spec2Isabelle
  imports Main "HOL-Library.Word"
begin

section \<open>The underlying integer type and the platform's constants\<close>

text \<open>
  The three headers declare
  \<^verbatim>\<open>typedef enum __attribute__((enum_extensibility(open))) : int32_t { ... } T;\<close>
  so a value of each enumeration is a 32-bit two's complement integer, and every
  32-bit integer is a value of it (the enumerators only name some of them).
\<close>

type_synonym int32_t = "32 word"

text \<open>
  The enumerators are initialised from macros of the operating system's headers
  (\<^verbatim>\<open><sys/sockio.h>\<close>, \<^verbatim>\<open><netinet/in.h>\<close>), which are not part of this repository.
  Their values are parameters of the model: one field per macro, holding the integer
  the macro expands to on the platform the headers belong to.
\<close>

record os_headers =
  AF_UNIX :: int
  AF_INET :: int
  AF_INET6 :: int
  AF_LINK :: int
  SOCK_STREAM :: int
  SOCK_DGRAM :: int
  SOCK_RAW :: int
  SOCK_SEQPACKET :: int
  IPPROTO_TCP :: int
  IPPROTO_UDP :: int
  IPPROTO_ICMP :: int
  IPPROTO_ICMPV6 :: int

text \<open>
  An enumerator of an enumeration with the fixed underlying type \<^verbatim>\<open>int32_t\<close> must have a
  value that \<^verbatim>\<open>int32_t\<close> can represent; the compiler rejects the declaration otherwise.
\<close>

definition representable :: "int \<Rightarrow> bool" where
  "representable c = (- (2 ^ 31) \<le> c \<and> c < 2 ^ 31)"

definition AddressFamily_wellformed :: "os_headers \<Rightarrow> bool" where
  "AddressFamily_wellformed h =
     (representable (AF_UNIX h) \<and> representable (AF_INET h) \<and>
      representable (AF_INET6 h) \<and> representable (AF_LINK h))"

definition SocketType_wellformed :: "os_headers \<Rightarrow> bool" where
  "SocketType_wellformed h =
     (representable (SOCK_STREAM h) \<and> representable (SOCK_DGRAM h) \<and>
      representable (SOCK_RAW h) \<and> representable (SOCK_SEQPACKET h))"

definition IPProtocol_wellformed :: "os_headers \<Rightarrow> bool" where
  "IPProtocol_wellformed h =
     (representable (IPPROTO_TCP h) \<and> representable (IPPROTO_UDP h) \<and>
      representable (IPPROTO_ICMP h) \<and> representable (IPPROTO_ICMPV6 h))"

text \<open>
  A set of header values used as concrete input below: the values of the twelve macros
  in the headers of Darwin, a platform that provides \<^verbatim>\<open><sys/sockio.h>\<close> and
  \<^verbatim>\<open>AF_LINK\<close>. No definition of the enumerations depends on it.
\<close>

definition darwin_headers :: os_headers where
  "darwin_headers =
     \<lparr> AF_UNIX = 1, AF_INET = 2, AF_INET6 = 30, AF_LINK = 18,
       SOCK_STREAM = 1, SOCK_DGRAM = 2, SOCK_RAW = 3, SOCK_SEQPACKET = 5,
       IPPROTO_TCP = 6, IPPROTO_UDP = 17, IPPROTO_ICMP = 1, IPPROTO_ICMPV6 = 58 \<rparr>"

section \<open>AddressFamily.h\<close>

text \<open>
  \<^verbatim>\<open>typedef enum ... : int32_t { unix = AF_UNIX, inet = AF_INET, inet6 = AF_INET6,
  link = AF_LINK } AddressFamily;\<close>

  The type wraps its underlying integer. \<open>AddressFamily_init\<close> is the conversion from
  the integer (\<^verbatim>\<open>(AddressFamily)n\<close>), \<open>AddressFamily_rawValue\<close> the conversion back
  (\<^verbatim>\<open>(int32_t)v\<close>).
\<close>

datatype AddressFamily = AddressFamily_init (AddressFamily_rawValue: int32_t)

definition unix :: "os_headers \<Rightarrow> AddressFamily" where
  "unix h = AddressFamily_init (word_of_int (AF_UNIX h))"

definition inet :: "os_headers \<Rightarrow> AddressFamily" where
  "inet h = AddressFamily_init (word_of_int (AF_INET h))"

definition inet6 :: "os_headers \<Rightarrow> AddressFamily" where
  "inet6 h = AddressFamily_init (word_of_int (AF_INET6 h))"

definition link :: "os_headers \<Rightarrow> AddressFamily" where
  "link h = AddressFamily_init (word_of_int (AF_LINK h))"

text \<open>
  \<^verbatim>\<open>a == b\<close> on two values of the enumeration promotes both to \<^verbatim>\<open>int\<close> and compares
  the signed integers.
\<close>

definition AddressFamily_eq :: "AddressFamily \<Rightarrow> AddressFamily \<Rightarrow> bool" where
  "AddressFamily_eq a b = (sint (AddressFamily_rawValue a) = sint (AddressFamily_rawValue b))"

section \<open>SocketType.h\<close>

text \<open>
  \<^verbatim>\<open>typedef enum ... : int32_t { stream = SOCK_STREAM, datagram = SOCK_DGRAM,
  raw = SOCK_RAW, seqpacket = SOCK_SEQPACKET, } SocketType;\<close>
\<close>

datatype SocketType = SocketType_init (SocketType_rawValue: int32_t)

definition stream :: "os_headers \<Rightarrow> SocketType" where
  "stream h = SocketType_init (word_of_int (SOCK_STREAM h))"

definition datagram :: "os_headers \<Rightarrow> SocketType" where
  "datagram h = SocketType_init (word_of_int (SOCK_DGRAM h))"

definition raw :: "os_headers \<Rightarrow> SocketType" where
  "raw h = SocketType_init (word_of_int (SOCK_RAW h))"

definition seqpacket :: "os_headers \<Rightarrow> SocketType" where
  "seqpacket h = SocketType_init (word_of_int (SOCK_SEQPACKET h))"

definition SocketType_eq :: "SocketType \<Rightarrow> SocketType \<Rightarrow> bool" where
  "SocketType_eq a b = (sint (SocketType_rawValue a) = sint (SocketType_rawValue b))"

section \<open>IPProtocol.h\<close>

text \<open>
  \<^verbatim>\<open>typedef enum ... : int32_t { tcp = IPPROTO_TCP, udp = IPPROTO_UDP,
  icmp = IPPROTO_ICMP, icmpv6 = IPPROTO_ICMPV6, } IPProtocol;\<close>
\<close>

datatype IPProtocol = IPProtocol_init (IPProtocol_rawValue: int32_t)

definition tcp :: "os_headers \<Rightarrow> IPProtocol" where
  "tcp h = IPProtocol_init (word_of_int (IPPROTO_TCP h))"

definition udp :: "os_headers \<Rightarrow> IPProtocol" where
  "udp h = IPProtocol_init (word_of_int (IPPROTO_UDP h))"

definition icmp :: "os_headers \<Rightarrow> IPProtocol" where
  "icmp h = IPProtocol_init (word_of_int (IPPROTO_ICMP h))"

definition icmpv6 :: "os_headers \<Rightarrow> IPProtocol" where
  "icmpv6 h = IPProtocol_init (word_of_int (IPPROTO_ICMPV6 h))"

definition IPProtocol_eq :: "IPProtocol \<Rightarrow> IPProtocol \<Rightarrow> bool" where
  "IPProtocol_eq a b = (sint (IPProtocol_rawValue a) = sint (IPProtocol_rawValue b))"

section \<open>Named variants and matching\<close>



definition IPProtocol_named :: "os_headers \<Rightarrow> IPProtocol list" where
  "IPProtocol_named h = [tcp h, udp h, icmp h, icmpv6 h]"




section \<open>Facts about the underlying integer\<close>

lemma sint_word_of_int_representable:
  assumes "representable c"
  shows "sint (word_of_int c :: int32_t) = c"
proof -
  from assms have lo: "- (2 ^ 31) \<le> c" and hi: "c < 2 ^ 31"
    by (simp_all add: representable_def)
  have "sint (word_of_int c :: int32_t) = signed_take_bit 31 c"
    by (simp add: sint_sbintrunc')
  also have "\<dots> = c"
    using lo hi by (rule signed_take_bit_int_eq_self)
  finally show ?thesis .
qed

lemma sint_int32_range: "- (2 ^ 31) \<le> sint (w :: int32_t) \<and> sint w < 2 ^ 31"
  using sint_ge [of w] sint_lt [of w] by simp

lemma sint_int32_eq_iff: "(sint (v :: int32_t) = sint w) = (v = w)"
  by (rule word_eq_iff_signed [symmetric])

section \<open>Facts about lists of named variants\<close>















section \<open>The header values used as concrete input\<close>

lemma darwin_wellformed:
  "AddressFamily_wellformed darwin_headers" "SocketType_wellformed darwin_headers"
  "IPProtocol_wellformed darwin_headers"
  by (simp_all add: AddressFamily_wellformed_def SocketType_wellformed_def
      IPProtocol_wellformed_def representable_def darwin_headers_def)

section \<open>Named variants carry the platform's constants\<close>

text \<open>
  Claim C1. For each of the three enumerations and each of its named variants, the raw
  integer of the variant is the value of the operating system's macro it is initialised
  from: \<open>unix\<close> is \<open>AF_UNIX\<close>, \<open>inet\<close> is \<open>AF_INET\<close>, \<open>inet6\<close> is \<open>AF_INET6\<close>, \<open>link\<close>
  is \<open>AF_LINK\<close>; \<open>stream\<close> is \<open>SOCK_STREAM\<close>, \<open>datagram\<close> is \<open>SOCK_DGRAM\<close>, \<open>raw\<close> is
  \<open>SOCK_RAW\<close>, \<open>seqpacket\<close> is \<open>SOCK_SEQPACKET\<close>; \<open>tcp\<close> is \<open>IPPROTO_TCP\<close>, \<open>udp\<close> is
  \<open>IPPROTO_UDP\<close>, \<open>icmp\<close> is \<open>IPPROTO_ICMP\<close>, \<open>icmpv6\<close> is \<open>IPPROTO_ICMPV6\<close>. This holds
  for every platform whose macros have values that \<^verbatim>\<open>int32_t\<close> represents, which the
  declarations need in order to compile.
\<close>

theorem named_rawValue_is_os_constant:
  assumes "AddressFamily_wellformed h" and "SocketType_wellformed h" and "IPProtocol_wellformed h"
  shows "sint (AddressFamily_rawValue (unix h)) = AF_UNIX h \<and>
         sint (AddressFamily_rawValue (inet h)) = AF_INET h \<and>
         sint (AddressFamily_rawValue (inet6 h)) = AF_INET6 h \<and>
         sint (AddressFamily_rawValue (link h)) = AF_LINK h \<and>
         sint (SocketType_rawValue (stream h)) = SOCK_STREAM h \<and>
         sint (SocketType_rawValue (datagram h)) = SOCK_DGRAM h \<and>
         sint (SocketType_rawValue (raw h)) = SOCK_RAW h \<and>
         sint (SocketType_rawValue (seqpacket h)) = SOCK_SEQPACKET h \<and>
         sint (IPProtocol_rawValue (tcp h)) = IPPROTO_TCP h \<and>
         sint (IPProtocol_rawValue (udp h)) = IPPROTO_UDP h \<and>
         sint (IPProtocol_rawValue (icmp h)) = IPPROTO_ICMP h \<and>
         sint (IPProtocol_rawValue (icmpv6 h)) = IPPROTO_ICMPV6 h"
proof -
  from assms(1) have af: "sint (AddressFamily_rawValue (unix h)) = AF_UNIX h"
    "sint (AddressFamily_rawValue (inet h)) = AF_INET h"
    "sint (AddressFamily_rawValue (inet6 h)) = AF_INET6 h"
    "sint (AddressFamily_rawValue (link h)) = AF_LINK h"
    by (simp_all add: AddressFamily_wellformed_def unix_def inet_def inet6_def link_def
        sint_word_of_int_representable)
  from assms(2) have st: "sint (SocketType_rawValue (stream h)) = SOCK_STREAM h"
    "sint (SocketType_rawValue (datagram h)) = SOCK_DGRAM h"
    "sint (SocketType_rawValue (raw h)) = SOCK_RAW h"
    "sint (SocketType_rawValue (seqpacket h)) = SOCK_SEQPACKET h"
    by (simp_all add: SocketType_wellformed_def stream_def datagram_def raw_def seqpacket_def
        sint_word_of_int_representable)
  from assms(3) have ip: "sint (IPProtocol_rawValue (tcp h)) = IPPROTO_TCP h"
    "sint (IPProtocol_rawValue (udp h)) = IPPROTO_UDP h"
    "sint (IPProtocol_rawValue (icmp h)) = IPPROTO_ICMP h"
    "sint (IPProtocol_rawValue (icmpv6 h)) = IPPROTO_ICMPV6 h"
    by (simp_all add: IPProtocol_wellformed_def tcp_def udp_def icmp_def icmpv6_def
        sint_word_of_int_representable)
  from af st ip show ?thesis by simp
qed

text \<open>The same at Darwin's header values.\<close>

theorem named_rawValue_is_os_constant_witness:
  "AddressFamily_wellformed darwin_headers \<and> SocketType_wellformed darwin_headers \<and>
   IPProtocol_wellformed darwin_headers \<and>
   sint (AddressFamily_rawValue (unix darwin_headers)) = 1 \<and>
   sint (AddressFamily_rawValue (inet darwin_headers)) = 2 \<and>
   sint (AddressFamily_rawValue (inet6 darwin_headers)) = 30 \<and>
   sint (AddressFamily_rawValue (link darwin_headers)) = 18 \<and>
   sint (SocketType_rawValue (stream darwin_headers)) = 1 \<and>
   sint (SocketType_rawValue (datagram darwin_headers)) = 2 \<and>
   sint (SocketType_rawValue (raw darwin_headers)) = 3 \<and>
   sint (SocketType_rawValue (seqpacket darwin_headers)) = 5 \<and>
   sint (IPProtocol_rawValue (tcp darwin_headers)) = 6 \<and>
   sint (IPProtocol_rawValue (udp darwin_headers)) = 17 \<and>
   sint (IPProtocol_rawValue (icmp darwin_headers)) = 1 \<and>
   sint (IPProtocol_rawValue (icmpv6 darwin_headers)) = 58"
proof -
  note facts = named_rawValue_is_os_constant [OF darwin_wellformed]
  have vals: "AF_UNIX darwin_headers = 1" "AF_INET darwin_headers = 2"
    "AF_INET6 darwin_headers = 30" "AF_LINK darwin_headers = 18"
    "SOCK_STREAM darwin_headers = 1" "SOCK_DGRAM darwin_headers = 2"
    "SOCK_RAW darwin_headers = 3" "SOCK_SEQPACKET darwin_headers = 5"
    "IPPROTO_TCP darwin_headers = 6" "IPPROTO_UDP darwin_headers = 17"
    "IPPROTO_ICMP darwin_headers = 1" "IPPROTO_ICMPV6 darwin_headers = 58"
    by (simp_all add: darwin_headers_def)
  from facts darwin_wellformed show ?thesis
    unfolding vals by simp
qed

section \<open>Round trips between integers and values\<close>

text \<open>
  Claim C2. For each of the three enumerations and every 32-bit integer \<open>n\<close>, constructing
  a value from \<open>n\<close> and reading its raw integer back yields \<open>n\<close>, whether or not \<open>n\<close> is
  the value of a named variant.
\<close>

theorem init_rawValue_roundtrip:
  "AddressFamily_rawValue (AddressFamily_init n) = n \<and>
   SocketType_rawValue (SocketType_init n) = n \<and>
   IPProtocol_rawValue (IPProtocol_init n) = n"
  by simp

text \<open>
  Claim C9. For each of the three enumerations and every value \<open>v\<close> of it, constructing
  a value from the raw integer of \<open>v\<close> yields \<open>v\<close> again; reading the raw integer is
  injective, and it is a bijection between the values and the 32-bit integers.
\<close>

theorem rawValue_init_roundtrip:
  "AddressFamily_init (AddressFamily_rawValue a) = a \<and>
   (AddressFamily_rawValue a = AddressFamily_rawValue a') = (a = a') \<and>
   bij AddressFamily_rawValue \<and>
   SocketType_init (SocketType_rawValue s) = s \<and>
   (SocketType_rawValue s = SocketType_rawValue s') = (s = s') \<and>
   bij SocketType_rawValue \<and>
   IPProtocol_init (IPProtocol_rawValue p) = p \<and>
   (IPProtocol_rawValue p = IPProtocol_rawValue p') = (p = p') \<and>
   bij IPProtocol_rawValue"
proof -
  have "bij AddressFamily_rawValue"
    by (rule bij_betw_byWitness [where f' = AddressFamily_init]) simp_all
  moreover have "bij SocketType_rawValue"
    by (rule bij_betw_byWitness [where f' = SocketType_init]) simp_all
  moreover have "bij IPProtocol_rawValue"
    by (rule bij_betw_byWitness [where f' = IPProtocol_init]) simp_all
  moreover have "(AddressFamily_rawValue a = AddressFamily_rawValue a') = (a = a')"
    by (cases a, cases a') simp
  moreover have "(SocketType_rawValue s = SocketType_rawValue s') = (s = s')"
    by (cases s, cases s') simp
  moreover have "(IPProtocol_rawValue p = IPProtocol_rawValue p') = (p = p')"
    by (cases p, cases p') simp
  ultimately show ?thesis
    by simp
qed

section \<open>Equality\<close>

text \<open>
  Claim C3. For each of the three enumerations, the values constructed from two 32-bit
  integers \<open>m\<close> and \<open>n\<close> compare equal exactly when \<open>m = n\<close>.
\<close>

theorem eq_iff_same_integer:
  "AddressFamily_eq (AddressFamily_init m) (AddressFamily_init n) = (m = n) \<and>
   SocketType_eq (SocketType_init m) (SocketType_init n) = (m = n) \<and>
   IPProtocol_eq (IPProtocol_init m) (IPProtocol_init n) = (m = n)"
  by (simp add: AddressFamily_eq_def SocketType_eq_def IPProtocol_eq_def sint_int32_eq_iff)

section \<open>The underlying type\<close>

text \<open>
  Claim C5. The raw integer of a value of each of the three enumerations is 32 bits wide;
  read as a signed integer it lies in the range of \<^verbatim>\<open>int32_t\<close>, and the value is
  recovered from that signed integer, so the conversion loses nothing.
\<close>

theorem underlying_type_is_int32:
  "size (AddressFamily_rawValue a) = 32 \<and>
   representable (sint (AddressFamily_rawValue a)) \<and>
   AddressFamily_init (word_of_int (sint (AddressFamily_rawValue a))) = a \<and>
   size (SocketType_rawValue s) = 32 \<and>
   representable (sint (SocketType_rawValue s)) \<and>
   SocketType_init (word_of_int (sint (SocketType_rawValue s))) = s \<and>
   size (IPProtocol_rawValue p) = 32 \<and>
   representable (sint (IPProtocol_rawValue p)) \<and>
   IPProtocol_init (word_of_int (sint (IPProtocol_rawValue p))) = p"
  using sint_int32_range by (simp add: representable_def word_size)

section \<open>An unrecognised protocol number\<close>

text \<open>
  Claim C6. Constructing an \<open>IPProtocol\<close> from 9999 yields a value whose raw integer is
  9999. On a platform where 9999 is not the value of \<open>IPPROTO_TCP\<close>, \<open>IPPROTO_UDP\<close>,
  \<open>IPPROTO_ICMP\<close> or \<open>IPPROTO_ICMPV6\<close> (an unrecognised protocol number), the value
  compares unequal to \<open>tcp\<close>, \<open>udp\<close>, \<open>icmp\<close> and \<open>icmpv6\<close>.
\<close>

theorem IPProtocol_init_9999:
  assumes "IPProtocol_wellformed h"
    and "9999 \<notin> set [IPPROTO_TCP h, IPPROTO_UDP h, IPPROTO_ICMP h, IPPROTO_ICMPV6 h]"
  shows "(\<exists>p. IPProtocol_init 9999 = p) \<and>
         IPProtocol_rawValue (IPProtocol_init 9999) = 9999 \<and>
         sint (IPProtocol_rawValue (IPProtocol_init 9999)) = 9999 \<and>
         \<not> IPProtocol_eq (IPProtocol_init 9999) (tcp h) \<and>
         \<not> IPProtocol_eq (IPProtocol_init 9999) (udp h) \<and>
         \<not> IPProtocol_eq (IPProtocol_init 9999) (icmp h) \<and>
         \<not> IPProtocol_eq (IPProtocol_init 9999) (icmpv6 h) \<and>
         IPProtocol_init 9999 \<notin> set (IPProtocol_named h)"
proof -
  have raw: "sint (IPProtocol_rawValue (IPProtocol_init 9999)) = 9999"
    by simp
  from assms(1) have named:
    "sint (IPProtocol_rawValue (tcp h)) = IPPROTO_TCP h"
    "sint (IPProtocol_rawValue (udp h)) = IPPROTO_UDP h"
    "sint (IPProtocol_rawValue (icmp h)) = IPPROTO_ICMP h"
    "sint (IPProtocol_rawValue (icmpv6 h)) = IPPROTO_ICMPV6 h"
    by (simp_all add: IPProtocol_wellformed_def tcp_def udp_def icmp_def icmpv6_def
        sint_word_of_int_representable)
  from assms(2) have ne: "\<not> IPProtocol_eq (IPProtocol_init 9999) (tcp h)"
    "\<not> IPProtocol_eq (IPProtocol_init 9999) (udp h)"
    "\<not> IPProtocol_eq (IPProtocol_init 9999) (icmp h)"
    "\<not> IPProtocol_eq (IPProtocol_init 9999) (icmpv6 h)"
    unfolding IPProtocol_eq_def named raw by auto
  have same: "IPProtocol_eq x x" for x
    by (simp add: IPProtocol_eq_def)
  have "IPProtocol_init 9999 \<notin> set (IPProtocol_named h)"
  proof
    assume "IPProtocol_init 9999 \<in> set (IPProtocol_named h)"
    then have "IPProtocol_init 9999 = tcp h \<or> IPProtocol_init 9999 = udp h \<or>
        IPProtocol_init 9999 = icmp h \<or> IPProtocol_init 9999 = icmpv6 h"
      by (simp add: IPProtocol_named_def)
    with ne same show False by metis
  qed
  with ne raw show ?thesis by simp
qed

text \<open>The same at Darwin's header values, where the four protocols are 6, 17, 1 and 58.\<close>

theorem IPProtocol_init_9999_witness:
  "IPProtocol_wellformed darwin_headers \<and>
   sint (IPProtocol_rawValue (IPProtocol_init 9999)) = 9999 \<and>
   \<not> IPProtocol_eq (IPProtocol_init 9999) (tcp darwin_headers) \<and>
   \<not> IPProtocol_eq (IPProtocol_init 9999) (udp darwin_headers) \<and>
   \<not> IPProtocol_eq (IPProtocol_init 9999) (icmp darwin_headers) \<and>
   \<not> IPProtocol_eq (IPProtocol_init 9999) (icmpv6 darwin_headers)"
proof -
  have "9999 \<notin> set [IPPROTO_TCP darwin_headers, IPPROTO_UDP darwin_headers,
      IPPROTO_ICMP darwin_headers, IPPROTO_ICMPV6 darwin_headers]"
    by (simp add: darwin_headers_def)
  from IPProtocol_init_9999 [OF darwin_wellformed(3) this] darwin_wellformed(3)
  show ?thesis by simp
qed

section \<open>When the named variants are pairwise distinct\<close>




end
